theory Spec2Isabelle
  imports Complex_Main "HOL-Library.Sublist" "HOL-Library.AList" "HOL-Library.Char_ord"
    "HOL-Library.List_Lexorder"
begin

section \<open>Python values, exceptions and effects\<close>

text \<open>
  The migration code handles JSON documents as Python values: the results of the remote
  API, the test-case dictionaries and the records of the cache. A dictionary is an
  association list in insertion order; a lookup takes the first binding of a key.
  A \<open>string\<close> is the UTF-8 byte sequence of a Python \<open>str\<close>.
\<close>

datatype pyval =
    PNone
  | PBool bool
  | PInt int
  | PStr string
  | PList "pyval list"
  | PDict "(string \<times> pyval) list"

text \<open>The exceptions the modelled code raises or receives from its libraries.\<close>

datatype exn =
    AttributeError
  | KeyError
  | TypeError
  | ValueError
  | JSONDecodeError
  | HTTPRequestError
  | PolygonAPIError
  | ConnectionError
  | ResponseError
  | StorageError
  | OSError

text \<open>Truthiness as \<open>if x:\<close> and \<open>x or y\<close> test it.\<close>

fun truthy :: "pyval \<Rightarrow> bool" where
  "truthy PNone = False"
| "truthy (PBool b) = b"
| "truthy (PInt i) = (i \<noteq> 0)"
| "truthy (PStr s) = (s \<noteq> [])"
| "truthy (PList xs) = (xs \<noteq> [])"
| "truthy (PDict d) = (d \<noteq> [])"

text \<open>\<open>d.get(key, default)\<close>; on a value that is no dictionary the attribute is missing.\<close>

fun py_get :: "pyval \<Rightarrow> string \<Rightarrow> pyval \<Rightarrow> exn + pyval" where
  "py_get (PDict d) k dflt = Inr (case map_of d k of None \<Rightarrow> dflt | Some v \<Rightarrow> v)"
| "py_get PNone k dflt = Inl AttributeError"
| "py_get (PBool b) k dflt = Inl AttributeError"
| "py_get (PInt i) k dflt = Inl AttributeError"
| "py_get (PStr s) k dflt = Inl AttributeError"
| "py_get (PList xs) k dflt = Inl AttributeError"

text \<open>
  A stateful, fallible computation returns its result or the exception it raised,
  together with the state it left behind: what was written before an exception stays
  written.
\<close>

type_synonym ('a, 's) eff = "'s \<Rightarrow> (exn + 'a) \<times> 's"

definition returnE :: "'a \<Rightarrow> ('a, 's) eff" where
  "returnE a s = (Inr a, s)"

definition raiseE :: "exn \<Rightarrow> ('a, 's) eff" where
  "raiseE e s = (Inl e, s)"

definition liftE :: "exn + 'a \<Rightarrow> ('a, 's) eff" where
  "liftE x s = (x, s)"

definition andthen :: "('a, 's) eff \<Rightarrow> ('a \<Rightarrow> ('b, 's) eff) \<Rightarrow> ('b, 's) eff" where
  "andthen m f s = (case m s of (Inl e, s') \<Rightarrow> (Inl e, s') | (Inr a, s') \<Rightarrow> f a s')"

definition try_except :: "('a, 's) eff \<Rightarrow> (exn \<Rightarrow> ('a, 's) eff) \<Rightarrow> ('a, 's) eff" where
  "try_except m h s = (case m s of (Inl e, s') \<Rightarrow> h e s' | (Inr a, s') \<Rightarrow> (Inr a, s'))"

section \<open>Decimal rendering of integers\<close>

definition digit_char :: "nat \<Rightarrow> char" where
  "digit_char d = ''0123456789'' ! d"

fun str_nat :: "nat \<Rightarrow> string" where
  "str_nat n = (if n < 10 then [digit_char n] else str_nat (n div 10) @ [digit_char (n mod 10)])"

declare str_nat.simps [simp del]

text \<open>\<open>str(i)\<close> and the rendering of an integer inside an f-string.\<close>

definition str_int :: "int \<Rightarrow> string" where
  "str_int i = (if i < 0 then ''-'' @ str_nat (nat (- i)) else str_nat (nat i))"

text \<open>
  The format specification \<open>{i:02d}\<close>: the sign comes first and zeros fill the field
  up to two characters.
\<close>

definition fmt02d :: "int \<Rightarrow> string" where
  "fmt02d i =
     (if i < 0 then ''-'' @ replicate (1 - length (str_nat (nat (- i)))) CHR ''0'' @ str_nat (nat (- i))
      else replicate (2 - length (str_nat (nat i))) CHR ''0'' @ str_nat (nat i))"

section \<open>The shared cache (Redis)\<close>

text \<open>
  The cache server holds, per key, a value and the time at which it expires. A stored
  byte string is represented by the JSON value it denotes: the count written by
  \<open>setex(key, ttl, len(test_cases))\<close> is \<open>PInt\<close>, a record written as
  \<open>json.dumps(d)\<close> is the dictionary that \<open>json.loads\<close> returns for it. Time is
  counted in seconds. When the server is not reachable every command raises.
\<close>

record redis =
  up :: bool
  now :: nat
  kv :: "string \<rightharpoonup> (pyval \<times> nat)"

definition redis_ping :: "(unit, redis) eff" where
  "redis_ping r = (if up r then (Inr (), r) else (Inl ConnectionError, r))"

text \<open>\<open>SETEX\<close> refuses an expiry that is not positive.\<close>

definition redis_setex :: "string \<Rightarrow> int \<Rightarrow> pyval \<Rightarrow> (unit, redis) eff" where
  "redis_setex k seconds v r =
     (if \<not> up r then (Inl ConnectionError, r)
      else if seconds \<le> 0 then (Inl ResponseError, r)
      else (Inr (), r\<lparr>kv := (kv r)(k \<mapsto> (v, now r + nat seconds))\<rparr>))"

definition redis_get :: "string \<Rightarrow> (pyval option, redis) eff" where
  "redis_get k r =
     (if \<not> up r then (Inl ConnectionError, r)
      else (Inr (case kv r k of
                   None \<Rightarrow> None
                 | Some (v, deadline) \<Rightarrow> if now r < deadline then Some v else None), r))"

text \<open>
  \<open>for key in r.scan_iter(pattern): r.delete(key)\<close> for a pattern that is a literal
  prefix followed by \<open>*\<close>: every key that starts with the prefix is deleted.
\<close>

definition redis_delete_matching :: "string \<Rightarrow> (unit, redis) eff" where
  "redis_delete_matching pfx r =
     (if \<not> up r then (Inl ConnectionError, r)
      else (Inr (), r\<lparr>kv := (\<lambda>k. if prefix pfx k then None else kv r k)\<rparr>))"


subsection \<open>PolygonAPI: the test-case cache\<close>

text \<open>\<open>int(expiry_hours * 3600)\<close>, with the hours as an exact rational number.\<close>

definition expiry_seconds_of :: "rat \<Rightarrow> int" where
  "expiry_seconds_of expiry_hours =
     (if expiry_hours * 3600 < 0 then \<lceil>expiry_hours * 3600\<rceil> else \<lfloor>expiry_hours * 3600\<rfloor>)"

definition cache_prefix :: "string \<Rightarrow> string" where
  "cache_prefix polygon_id = ''polygon_migration_test_cases_'' @ polygon_id"

text \<open>The record \<open>test_case_data\<close> that the loop of \<open>store_test_cases_in_redis\<close> builds.\<close>

definition test_case_data :: "int \<Rightarrow> pyval \<Rightarrow> exn + pyval" where
  "test_case_data idx test_case =
     (case py_get test_case ''index'' (PInt idx) of Inl e \<Rightarrow> Inl e | Inr v_index \<Rightarrow>
      case py_get test_case ''input'' (PStr '''') of Inl e \<Rightarrow> Inl e | Inr v_input \<Rightarrow>
      case py_get test_case ''output'' (PStr '''') of Inl e \<Rightarrow> Inl e | Inr v_output \<Rightarrow>
      case py_get test_case ''description'' (PStr '''') of Inl e \<Rightarrow> Inl e | Inr v_description \<Rightarrow>
      case py_get test_case ''is_sample'' (PBool False) of Inl e \<Rightarrow> Inl e | Inr v_is_sample \<Rightarrow>
        Inr (PDict [(''index'', v_index), (''input'', v_input), (''output'', v_output),
                    (''description'', v_description), (''is_sample'', v_is_sample)]))"

text \<open>\<open>for idx, test_case in enumerate(test_cases, start=1)\<close>, from position \<open>idx\<close> on.\<close>

fun store_each :: "string \<Rightarrow> int \<Rightarrow> int \<Rightarrow> pyval list \<Rightarrow> (unit, redis) eff" where
  "store_each pfx expiry_seconds idx [] = returnE ()"
| "store_each pfx expiry_seconds idx (test_case # rest) =
     andthen (liftE (test_case_data idx test_case)) (\<lambda>data.
     andthen (redis_setex (pfx @ ''_test_'' @ str_int idx) expiry_seconds data) (\<lambda>_.
     store_each pfx expiry_seconds (idx + 1) rest))"

text \<open>
  \<open>store_test_cases_in_redis\<close>: every exception is logged and swallowed, so the caller
  only sees the cache as the function left it.
\<close>

definition store_test_cases_in_redis :: "string \<Rightarrow> pyval list \<Rightarrow> rat \<Rightarrow> redis \<Rightarrow> redis" where
  "store_test_cases_in_redis polygon_id test_cases expiry_hours r =
     snd (try_except
       (andthen redis_ping (\<lambda>_.
        andthen (redis_setex (cache_prefix polygon_id @ ''_count'') (expiry_seconds_of expiry_hours)
                   (PInt (int (length test_cases)))) (\<lambda>_.
        store_each (cache_prefix polygon_id) (expiry_seconds_of expiry_hours) 1 test_cases)))
       (\<lambda>e. returnE ()) r)"

text \<open>\<open>count = int(count)\<close> on the bytes of the count record.\<close>

fun int_of_bytes :: "pyval \<Rightarrow> exn + int" where
  "int_of_bytes (PInt n) = Inr n"
| "int_of_bytes PNone = Inl ValueError"
| "int_of_bytes (PBool b) = Inl ValueError"
| "int_of_bytes (PStr s) = Inl ValueError"
| "int_of_bytes (PList xs) = Inl ValueError"
| "int_of_bytes (PDict d) = Inl ValueError"

text \<open>
  \<open>for idx in range(1, count + 1)\<close>: a record that is present is appended, a missing
  one is logged and left out.
\<close>

fun fetch_each :: "string \<Rightarrow> int list \<Rightarrow> (pyval list, redis) eff" where
  "fetch_each pfx [] = returnE []"
| "fetch_each pfx (idx # rest) =
     andthen (redis_get (pfx @ ''_test_'' @ str_int idx)) (\<lambda>test_case_data.
     andthen (fetch_each pfx rest) (\<lambda>test_cases.
     returnE (case test_case_data of None \<Rightarrow> test_cases | Some test_case \<Rightarrow> test_case # test_cases)))"

text \<open>\<open>get_test_cases_from_redis\<close>: the list, or \<open>None\<close> on a miss and on every exception.\<close>

definition get_test_cases_from_redis :: "string \<Rightarrow> redis \<Rightarrow> pyval list option" where
  "get_test_cases_from_redis polygon_id r =
     (case andthen (redis_get (cache_prefix polygon_id @ ''_count'')) (\<lambda>count.
             case count of
               None \<Rightarrow> returnE None
             | Some c \<Rightarrow>
                 andthen (liftE (int_of_bytes c)) (\<lambda>n.
                 andthen (fetch_each (cache_prefix polygon_id) [1..n]) (\<lambda>test_cases.
                 returnE (Some test_cases)))) r of
        (Inl e, _) \<Rightarrow> None
      | (Inr res, _) \<Rightarrow> res)"

text \<open>\<open>clear_test_cases_from_redis\<close>: deletes the keys of this problem's namespace.\<close>

definition clear_test_cases_from_redis :: "string \<Rightarrow> redis \<Rightarrow> redis" where
  "clear_test_cases_from_redis polygon_id r =
     snd (try_except (redis_delete_matching (cache_prefix polygon_id)) (\<lambda>e. returnE ()) r)"

text \<open>
  \<open>delete_problem_test_case_cache\<close>: the pattern is built from another namespace and
  from the database identifier of the problem.
\<close>

definition delete_problem_test_case_cache :: "int \<Rightarrow> redis \<Rightarrow> redis" where
  "delete_problem_test_case_cache db_problem_id r =
     snd (try_except
       (redis_delete_matching (''oj_dev_with_redis_storage_test_cases_'' @ str_int db_problem_id))
       (\<lambda>e. returnE ()) r)"

subsection \<open>Notions used to state the properties of the cache\<close>





text \<open>
  The records that the storing loop builds for a list of test cases, numbered from
  \<open>idx\<close>; and the value a \<open>GET\<close> of a key shows.
\<close>

fun records_from :: "int \<Rightarrow> pyval list \<Rightarrow> pyval list" where
  "records_from idx [] = []"
| "records_from idx (test_case # rest) =
     (case test_case_data idx test_case of Inl e \<Rightarrow> PNone | Inr data \<Rightarrow> data) # records_from (idx + 1) rest"

definition visible :: "redis \<Rightarrow> string \<Rightarrow> pyval option" where
  "visible r k = (case kv r k of None \<Rightarrow> None | Some (v, deadline) \<Rightarrow> if now r < deadline then Some v else None)"

section \<open>The signed API client\<close>

text \<open>
  What lies outside the program is read from an environment: the Django settings, the
  clock, the random nonce, the library functions \<open>hashlib.sha512(...).hexdigest()\<close>
  and \<open>repr\<close>, the remote API behind \<open>requests.post\<close>, and the host on which the
  checker is compiled. A response of the remote is \<open>Response ok body json\<close>: whether
  the status is 2xx, the body text, and the JSON document of the body when it parses.
\<close>

datatype http_outcome =
    RequestFailed
  | Response bool string "pyval option"

datatype run_outcome =
    Exited int
  | TimeoutExpired
  | FileNotFound
  | RunFailed

record env =
  POLYGON_API_KEY :: string
  POLYGON_API_SECRET :: string
  CUSTOM_CHECKER_DIR :: "string option"
  STORAGE_TYPE :: "string option"
  STORAGE_CONTAINER_NAME :: "string option"
  LOCAL_STORAGE_PATH :: "string option"
  BASE_DIR :: string
  GDRIVE_FOLDER_ID :: "string option"
  unix_time :: int
  nonce :: string
  sha512_hexdigest :: "string \<Rightarrow> string"
  py_repr :: "pyval \<Rightarrow> string"
  http_post :: "string \<Rightarrow> (string \<times> pyval) list \<Rightarrow> http_outcome"
  checker_dir_exists :: bool
  makedirs_error :: "exn option"
  temporary_directory :: "exn + string"
  which_gpp :: "string option"
  write_source_error :: "exn option"
  win32 :: bool
  run_gpp :: "string \<Rightarrow> run_outcome"
  binary_created :: bool
  chmod_error :: "exn option"
  read_binary :: "string \<Rightarrow> exn + string"

definition API_URL :: string where
  "API_URL = ''https://polygon.codeforces.com/api/''"

text \<open>\<open>str(v)\<close>; for a list or a dictionary it is the library's \<open>repr\<close>.\<close>

fun py_str :: "env \<Rightarrow> pyval \<Rightarrow> string" where
  "py_str env (PStr s) = s"
| "py_str env (PInt i) = str_int i"
| "py_str env (PBool b) = (if b then ''True'' else ''False'')"
| "py_str env PNone = ''None''"
| "py_str env (PList xs) = py_repr env (PList xs)"
| "py_str env (PDict d) = py_repr env (PDict d)"

text \<open>
  \<open>urllib.parse.quote_plus\<close> with no extra safe characters, byte by byte: letters,
  digits and \<open>_.-~\<close> stay, a space becomes \<open>+\<close>, every other byte is \<open>%XX\<close>.
\<close>

definition hex_digit :: "nat \<Rightarrow> char" where
  "hex_digit d = ''0123456789ABCDEF'' ! d"

definition unreserved :: "char \<Rightarrow> bool" where
  "unreserved c =
     (c \<in> set ''ABCDEFGHIJKLMNOPQRSTUVWXYZabcdefghijklmnopqrstuvwxyz0123456789_.-~'')"

definition quote_plus :: "string \<Rightarrow> string" where
  "quote_plus s =
     concat (map (\<lambda>c. if unreserved c then [c]
                      else if c = CHR '' '' then ''+''
                      else [CHR ''%'', hex_digit (of_char c div 16), hex_digit (of_char c mod 16)]) s)"

fun join_with :: "string \<Rightarrow> string list \<Rightarrow> string" where
  "join_with sep [] = []"
| "join_with sep [x] = x"
| "join_with sep (x # y # rest) = x @ sep @ join_with sep (y # rest)"

definition urlencode :: "env \<Rightarrow> (string \<times> pyval) list \<Rightarrow> string" where
  "urlencode env query =
     join_with ''&'' (map (\<lambda>(k, v). quote_plus k @ ''='' @ quote_plus (py_str env v)) query)"

text \<open>
  \<open>_generate_api_sig\<close>. The parameters are a dictionary, so \<open>sorted(params.items())\<close>
  orders the items by their keys.
\<close>

definition generate_api_sig :: "env \<Rightarrow> string \<Rightarrow> (string \<times> pyval) list \<Rightarrow> string \<times> int" where
  "generate_api_sig env method_name params =
     (let params = AList.update ''apiKey'' (PStr (POLYGON_API_KEY env)) params;
          params = AList.update ''time'' (PInt (unix_time env)) params;
          sorted_params = sort_key fst params;
          param_str = urlencode env sorted_params;
          rand_prefix = nonce env;
          to_hash = rand_prefix @ ''/'' @ method_name @ ''?'' @ param_str @ ''#'' @ POLYGON_API_SECRET env;
          sha512_hash = sha512_hexdigest env to_hash;
          api_sig = rand_prefix @ sha512_hash
      in (api_sig, unix_time env))"

text \<open>
  \<open>_make_request\<close>: a transport failure and a status that is not 2xx are raised as
  \<open>HTTP Request Error\<close>, a body that is no JSON raises where JSON is expected, and a
  JSON document whose status is \<open>FAILED\<close> raises \<open>Polygon API Error\<close>.
\<close>

definition make_request :: "env \<Rightarrow> string \<Rightarrow> (string \<times> pyval) list \<Rightarrow> bool \<Rightarrow> exn + pyval" where
  "make_request env method_name params expect_json =
     (let (api_sig, request_time) = generate_api_sig env method_name params;
          post_params = AList.update ''apiKey'' (PStr (POLYGON_API_KEY env)) params;
          post_params = AList.update ''apiSig'' (PStr api_sig) post_params;
          post_params = AList.update ''time'' (PInt request_time) post_params
      in case http_post env (API_URL @ method_name) post_params of
           RequestFailed \<Rightarrow> Inl HTTPRequestError
         | Response ok body parsed \<Rightarrow>
             if \<not> ok then Inl HTTPRequestError
             else if \<not> expect_json then Inr (PStr body)
             else (case parsed of
                     None \<Rightarrow> Inl JSONDecodeError
                   | Some data \<Rightarrow>
                       (case py_get data ''status'' PNone of
                          Inl e \<Rightarrow> Inl e
                        | Inr status \<Rightarrow>
                            if status = PStr ''FAILED'' then Inl PolygonAPIError
                            else py_get data ''result'' PNone)))"

definition make_plain_request :: "env \<Rightarrow> string \<Rightarrow> (string \<times> pyval) list \<Rightarrow> exn + pyval" where
  "make_plain_request env method_name params = make_request env method_name params False"

subsection \<open>Fetching the test cases\<close>

text \<open>\<open>len(x)\<close> followed by \<open>for item in x\<close>.\<close>

fun py_iterate :: "pyval \<Rightarrow> exn + pyval list" where
  "py_iterate (PList xs) = Inr xs"
| "py_iterate (PStr s) = Inr (map (\<lambda>c. PStr [c]) s)"
| "py_iterate (PDict d) = Inr (map (\<lambda>(k, v). PStr k) d)"
| "py_iterate PNone = Inl TypeError"
| "py_iterate (PBool b) = Inl TypeError"
| "py_iterate (PInt i) = Inl TypeError"

text \<open>The subscript \<open>x[key]\<close> with a string key.\<close>

fun py_item :: "pyval \<Rightarrow> string \<Rightarrow> exn + pyval" where
  "py_item (PDict d) k = (case map_of d k of None \<Rightarrow> Inl KeyError | Some v \<Rightarrow> Inr v)"
| "py_item PNone k = Inl TypeError"
| "py_item (PBool b) k = Inl TypeError"
| "py_item (PInt i) k = Inl TypeError"
| "py_item (PStr s) k = Inl TypeError"
| "py_item (PList xs) k = Inl TypeError"

text \<open>The expression \<open>x or ''\<close> with the empty string.\<close>

definition or_empty :: "pyval \<Rightarrow> pyval" where
  "or_empty x = (if truthy x then x else PStr [])"

text \<open>
  The body of the loop of \<open>get_all_test_cases\<close> for one test: the descriptor fields,
  then input and output by two plain requests; when either request raises, both are
  empty.
\<close>

definition fetch_one_test_case :: "env \<Rightarrow> string \<Rightarrow> string \<Rightarrow> pyval \<Rightarrow> exn + pyval" where
  "fetch_one_test_case env problem_id testset test =
     (case py_item test ''index'' of Inl e \<Rightarrow> Inl e | Inr test_index \<Rightarrow>
      case py_get test ''manual'' (PBool False) of Inl e \<Rightarrow> Inl e | Inr v_manual \<Rightarrow>
      case py_get test ''useInStatements'' (PBool False) of Inl e \<Rightarrow> Inl e | Inr v_is_sample \<Rightarrow>
      case py_get test ''description'' (PStr []) of Inl e \<Rightarrow> Inl e | Inr v_description \<Rightarrow>
        (let test_case = [(''index'', test_index), (''manual'', v_manual),
                          (''is_sample'', v_is_sample), (''description'', v_description)];
             request = [(''problemId'', PStr problem_id), (''testset'', PStr testset),
                        (''testIndex'', test_index)]
         in case make_plain_request env ''problem.testInput'' request of
              Inl e \<Rightarrow> Inr (PDict (test_case @ [(''input'', PStr []), (''output'', PStr [])]))
            | Inr v_input \<Rightarrow>
                (case make_plain_request env ''problem.testAnswer'' request of
                   Inl e \<Rightarrow> Inr (PDict (test_case @ [(''input'', PStr []), (''output'', PStr [])]))
                 | Inr v_output \<Rightarrow>
                     Inr (PDict (test_case @ [(''input'', or_empty v_input),
                                              (''output'', or_empty v_output)])))))"

fun fetch_test_cases :: "env \<Rightarrow> string \<Rightarrow> string \<Rightarrow> pyval list \<Rightarrow> exn + pyval list" where
  "fetch_test_cases env problem_id testset [] = Inr []"
| "fetch_test_cases env problem_id testset (test # rest) =
     (case fetch_one_test_case env problem_id testset test of
        Inl e \<Rightarrow> Inl e
      | Inr test_case \<Rightarrow>
          (case fetch_test_cases env problem_id testset rest of
             Inl e \<Rightarrow> Inl e
           | Inr all_cases \<Rightarrow> Inr (test_case # all_cases)))"

definition get_all_test_cases :: "env \<Rightarrow> string \<Rightarrow> string \<Rightarrow> exn + pyval list" where
  "get_all_test_cases env problem_id testset =
     (case make_request env ''problem.tests''
             [(''problemId'', PStr problem_id), (''testset'', PStr testset)] True of
        Inl e \<Rightarrow> Inl e
      | Inr tests \<Rightarrow>
          (case py_iterate tests of
             Inl e \<Rightarrow> Inl e
           | Inr items \<Rightarrow> fetch_test_cases env problem_id testset items))"

subsection \<open>The checker of a problem\<close>

text \<open>\<open>s.startswith(p)\<close>; only a string has the method.\<close>

fun py_startswith :: "pyval \<Rightarrow> string \<Rightarrow> exn + bool" where
  "py_startswith (PStr s) p = Inr (prefix p s)"
| "py_startswith PNone p = Inl AttributeError"
| "py_startswith (PBool b) p = Inl AttributeError"
| "py_startswith (PInt i) p = Inl AttributeError"
| "py_startswith (PList xs) p = Inl AttributeError"
| "py_startswith (PDict d) p = Inl AttributeError"

text \<open>
  \<open>get_custom_checker_info\<close>: the descriptor of a custom checker, or \<open>None\<close>; every
  exception of the request or of the test of the name is caught and gives \<open>None\<close>.
\<close>

definition get_custom_checker_info :: "env \<Rightarrow> string \<Rightarrow> pyval option" where
  "get_custom_checker_info env problem_id =
     (case make_request env ''problem.checker'' [(''problemId'', PStr problem_id)] True of
        Inl e \<Rightarrow> None
      | Inr checker_info \<Rightarrow>
          if \<not> truthy checker_info then None
          else (case py_startswith checker_info ''std::'' of
                  Inl e \<Rightarrow> None
                | Inr standard \<Rightarrow>
                    if \<not> standard
                    then Some (PDict [(''name'', checker_info), (''type'', PStr ''custom'')])
                    else None))"

section \<open>The storage backends\<close>

text \<open>
  A problem is named in storage by its database identifier, an integer, or, when none
  is given, by the identifier of the external platform, a string. Both are rendered by
  \<open>str\<close>.
\<close>

datatype ident = IntId int | StrId string

fun str_ident :: "ident \<Rightarrow> string" where
  "str_ident (IntId i) = str_int i"
| "str_ident (StrId s) = s"

text \<open>
  The state of the storage services. The three object stores (an S3 bucket service, the
  R2 endpoint, the Azure blob service) hold a body per container and key. The local
  file system holds files by path and the directories that exist. Google Drive holds
  folders and files; a folder is identified by its path of names from the top, and
  several files of one name may lie in one folder. Every call of a service's library
  can fail: \<open>faults\<close> lists, for the calls to come, whether each one fails, and calls
  beyond the list succeed.
\<close>

datatype service = S3_service | R2_service | Azure_service

record storage =
  faults :: "bool list"
  objects :: "service \<Rightarrow> ((string \<times> string) \<times> string) list"
  local_files :: "(string \<times> string) list"
  local_dirs :: "string list"
  drive_folders :: "string list list"
  drive_files :: "(string list \<times> string \<times> string) list"

text \<open>One call that changes the state, and one call that reads from it.\<close>

definition attempt :: "(storage \<Rightarrow> storage) \<Rightarrow> (unit, storage) eff" where
  "attempt f s =
     (case faults s of
        [] \<Rightarrow> (Inr (), f s)
      | failing # later \<Rightarrow>
          if failing then (Inl StorageError, s\<lparr>faults := later\<rparr>)
          else (Inr (), f (s\<lparr>faults := later\<rparr>)))"

definition listing :: "(storage \<Rightarrow> 'a) \<Rightarrow> ('a, storage) eff" where
  "listing f s =
     (case faults s of
        [] \<Rightarrow> (Inr (f s), s)
      | failing # later \<Rightarrow>
          if failing then (Inl StorageError, s\<lparr>faults := later\<rparr>)
          else (Inr (f (s\<lparr>faults := later\<rparr>)), s\<lparr>faults := later\<rparr>))"

text \<open>\<open>data.encode('utf-8')\<close>: only a string has the method.\<close>

fun py_encode :: "pyval \<Rightarrow> exn + string" where
  "py_encode (PStr s) = Inr s"
| "py_encode PNone = Inl AttributeError"
| "py_encode (PBool b) = Inl AttributeError"
| "py_encode (PInt i) = Inl AttributeError"
| "py_encode (PList xs) = Inl AttributeError"
| "py_encode (PDict d) = Inl AttributeError"

subsection \<open>Object stores: the calls of the client libraries\<close>

text \<open>\<open>put_object\<close> and \<open>upload_blob(..., overwrite=True)\<close> replace the body of a key.\<close>

definition put_object :: "service \<Rightarrow> string \<Rightarrow> string \<Rightarrow> string \<Rightarrow> (unit, storage) eff" where
  "put_object svc bucket k body =
     attempt (\<lambda>s. s\<lparr>objects := (objects s)(svc := AList.update (bucket, k) body (objects s svc))\<rparr>)"

text \<open>The keys of a container that start with a prefix.\<close>

definition list_objects :: "service \<Rightarrow> string \<Rightarrow> string \<Rightarrow> (string list, storage) eff" where
  "list_objects svc bucket pfx =
     listing (\<lambda>s. map snd (filter (\<lambda>k. fst k = bucket \<and> prefix pfx (snd k)) (map fst (objects s svc))))"

definition delete_objects :: "service \<Rightarrow> string \<Rightarrow> string list \<Rightarrow> (unit, storage) eff" where
  "delete_objects svc bucket ks =
     attempt (\<lambda>s. s\<lparr>objects := (objects s)(svc :=
        filter (\<lambda>(k, body). \<not> (fst k = bucket \<and> snd k \<in> set ks)) (objects s svc))\<rparr>)"

text \<open>The pages of a listing hold up to 1000 keys each; no page when nothing matches.\<close>

function pages_of :: "'a list \<Rightarrow> 'a list list" where
  "pages_of xs = (if xs = [] then [] else take 1000 xs # pages_of (drop 1000 xs))"
  by pat_completeness auto
termination
  by (relation "measure length") auto

declare pages_of.simps [simp del]

fun delete_pages :: "service \<Rightarrow> string \<Rightarrow> string list list \<Rightarrow> (unit, storage) eff" where
  "delete_pages svc bucket [] = returnE ()"
| "delete_pages svc bucket (page # later) =
     andthen (delete_objects svc bucket page) (\<lambda>_. delete_pages svc bucket later)"

fun delete_blobs :: "service \<Rightarrow> string \<Rightarrow> string list \<Rightarrow> (unit, storage) eff" where
  "delete_blobs svc container [] = returnE ()"
| "delete_blobs svc container (blob_name # later) =
     andthen (delete_objects svc container [blob_name]) (\<lambda>_. delete_blobs svc container later)"

subsection \<open>S3StorageManager\<close>

definition S3_upload_test_case ::
  "string \<Rightarrow> ident \<Rightarrow> int \<Rightarrow> pyval \<Rightarrow> pyval \<Rightarrow> (unit, storage) eff" where
  "S3_upload_test_case container_name db_problem_id test_number input_data output_data =
     (let input_key = ''test_cases/'' @ str_ident db_problem_id @ ''/'' @ fmt02d test_number;
          output_key = ''test_cases/'' @ str_ident db_problem_id @ ''/'' @ fmt02d test_number @ ''.a''
      in andthen (liftE (py_encode input_data)) (\<lambda>body.
         andthen (put_object S3_service container_name input_key body) (\<lambda>_.
         andthen (liftE (py_encode output_data)) (\<lambda>body.
         put_object S3_service container_name output_key body))))"

definition S3_empty_blob :: "string \<Rightarrow> ident \<Rightarrow> (unit, storage) eff" where
  "S3_empty_blob container_name problem_id =
     (let pfx = ''test_cases/'' @ str_ident problem_id @ ''/''
      in andthen (list_objects S3_service container_name pfx) (\<lambda>ks.
         delete_pages S3_service container_name (pages_of ks)))"

definition S3_upload_file :: "string \<Rightarrow> string \<Rightarrow> string \<Rightarrow> (unit, storage) eff" where
  "S3_upload_file container_name file_path file_data =
     put_object S3_service container_name file_path file_data"

subsection \<open>R2StorageManager\<close>

definition R2_upload_test_case ::
  "string \<Rightarrow> ident \<Rightarrow> int \<Rightarrow> pyval \<Rightarrow> pyval \<Rightarrow> (unit, storage) eff" where
  "R2_upload_test_case container_name db_problem_id test_number input_data output_data =
     (let input_key = ''test_cases/'' @ str_ident db_problem_id @ ''/'' @ fmt02d test_number;
          output_key = ''test_cases/'' @ str_ident db_problem_id @ ''/'' @ fmt02d test_number @ ''.a''
      in andthen (liftE (py_encode input_data)) (\<lambda>body.
         andthen (put_object R2_service container_name input_key body) (\<lambda>_.
         andthen (liftE (py_encode output_data)) (\<lambda>body.
         put_object R2_service container_name output_key body))))"

definition R2_empty_blob :: "string \<Rightarrow> ident \<Rightarrow> (unit, storage) eff" where
  "R2_empty_blob container_name problem_id =
     (let pfx = ''test_cases/'' @ str_ident problem_id @ ''/''
      in andthen (list_objects R2_service container_name pfx) (\<lambda>ks.
         delete_pages R2_service container_name (pages_of ks)))"

definition R2_upload_file :: "string \<Rightarrow> string \<Rightarrow> string \<Rightarrow> (unit, storage) eff" where
  "R2_upload_file container_name file_path file_data =
     put_object R2_service container_name file_path file_data"

subsection \<open>AzureBlobManager\<close>

definition Azure_upload_test_case ::
  "string \<Rightarrow> ident \<Rightarrow> int \<Rightarrow> pyval \<Rightarrow> pyval \<Rightarrow> (unit, storage) eff" where
  "Azure_upload_test_case container_name db_problem_id test_number input_data output_data =
     (let input_blob_name = ''test_cases/'' @ str_ident db_problem_id @ ''/'' @ fmt02d test_number;
          output_blob_name = ''test_cases/'' @ str_ident db_problem_id @ ''/'' @ fmt02d test_number @ ''.a''
      in andthen (liftE (py_encode input_data)) (\<lambda>body.
         andthen (put_object Azure_service container_name input_blob_name body) (\<lambda>_.
         andthen (liftE (py_encode output_data)) (\<lambda>body.
         put_object Azure_service container_name output_blob_name body))))"

definition Azure_empty_blob :: "string \<Rightarrow> ident \<Rightarrow> (unit, storage) eff" where
  "Azure_empty_blob container_name problem_id =
     (let pfx = ''test_cases/'' @ str_ident problem_id @ ''/''
      in andthen (list_objects Azure_service container_name pfx) (\<lambda>blobs_to_delete.
         delete_blobs Azure_service container_name blobs_to_delete))"

definition Azure_upload_file :: "string \<Rightarrow> string \<Rightarrow> string \<Rightarrow> (unit, storage) eff" where
  "Azure_upload_file container_name file_path file_data =
     put_object Azure_service container_name file_path file_data"

subsection \<open>LocalStorageManager\<close>

text \<open>\<open>os.path.join\<close> and \<open>os.path.dirname\<close> on a POSIX host.\<close>

definition path_join2 :: "string \<Rightarrow> string \<Rightarrow> string" where
  "path_join2 a b =
     (if prefix ''/'' b then b
      else if a = [] \<or> suffix ''/'' a then a @ b
      else a @ ''/'' @ b)"

definition path_join :: "string \<Rightarrow> string list \<Rightarrow> string" where
  "path_join a ps = foldl path_join2 a ps"

definition dirname :: "string \<Rightarrow> string" where
  "dirname p =
     (let head = rev (dropWhile (\<lambda>c. c \<noteq> CHR ''/'') (rev p))
      in if head \<noteq> [] \<and> \<not> list_all (\<lambda>c. c = CHR ''/'') head
         then rev (dropWhile (\<lambda>c. c = CHR ''/'') (rev head))
         else head)"

text \<open>
  \<open>os.makedirs(p, exist_ok=True)\<close>, \<open>with open(p, 'w') as f: f.write(data)\<close> (the
  file is created before a value that is no string is refused), \<open>os.path.exists\<close>
  and \<open>shutil.rmtree\<close>.
\<close>

definition makedirs :: "string \<Rightarrow> (unit, storage) eff" where
  "makedirs p s =
     (if map_of (local_files s) p \<noteq> None then (Inl OSError, s)
      else attempt (\<lambda>s. s\<lparr>local_dirs := List.insert p (local_dirs s)\<rparr>) s)"

definition write_file :: "string \<Rightarrow> string \<Rightarrow> (unit, storage) eff" where
  "write_file p data = attempt (\<lambda>s. s\<lparr>local_files := AList.update p data (local_files s)\<rparr>)"

fun write_text :: "string \<Rightarrow> pyval \<Rightarrow> (unit, storage) eff" where
  "write_text p (PStr data) = write_file p data"
| "write_text p PNone = andthen (write_file p []) (\<lambda>_. raiseE TypeError)"
| "write_text p (PBool b) = andthen (write_file p []) (\<lambda>_. raiseE TypeError)"
| "write_text p (PInt i) = andthen (write_file p []) (\<lambda>_. raiseE TypeError)"
| "write_text p (PList xs) = andthen (write_file p []) (\<lambda>_. raiseE TypeError)"
| "write_text p (PDict d) = andthen (write_file p []) (\<lambda>_. raiseE TypeError)"

definition path_exists :: "storage \<Rightarrow> string \<Rightarrow> bool" where
  "path_exists s p =
     list_ex (\<lambda>q. q = p \<or> prefix (p @ ''/'') q) (local_dirs s @ map fst (local_files s))"

definition rmtree :: "string \<Rightarrow> (unit, storage) eff" where
  "rmtree p s =
     (if map_of (local_files s) p \<noteq> None then (Inl OSError, s)
      else attempt (\<lambda>s. s\<lparr>local_dirs := filter (\<lambda>q. \<not> (q = p \<or> prefix (p @ ''/'') q)) (local_dirs s),
                           local_files := filter (\<lambda>(q, data). \<not> prefix (p @ ''/'') q) (local_files s)\<rparr>) s)"

definition Local_upload_test_case ::
  "string \<Rightarrow> string \<Rightarrow> ident \<Rightarrow> int \<Rightarrow> pyval \<Rightarrow> pyval \<Rightarrow> (unit, storage) eff" where
  "Local_upload_test_case base_path container_name db_problem_id test_number input_data output_data =
     (let problem_dir = path_join base_path [container_name, ''test_cases'', str_ident db_problem_id]
      in andthen (makedirs problem_dir) (\<lambda>_.
         let input_file = path_join problem_dir [fmt02d test_number];
             output_file = path_join problem_dir [fmt02d test_number @ ''.a'']
         in andthen (write_text input_file input_data) (\<lambda>_.
            write_text output_file output_data)))"

definition Local_empty_blob :: "string \<Rightarrow> string \<Rightarrow> ident \<Rightarrow> (unit, storage) eff" where
  "Local_empty_blob base_path container_name problem_id s =
     (let problem_dir = path_join base_path [container_name, ''test_cases'', str_ident problem_id]
      in if path_exists s problem_dir then rmtree problem_dir s else (Inr (), s))"

definition Local_upload_file :: "string \<Rightarrow> string \<Rightarrow> string \<Rightarrow> string \<Rightarrow> (unit, storage) eff" where
  "Local_upload_file base_path container_name file_path file_data =
     (let full_path = path_join base_path [container_name, file_path]
      in andthen (makedirs (dirname full_path)) (\<lambda>_.
         write_file full_path file_data))"

subsection \<open>GoogleDriveStorageManager\<close>

text \<open>
  \<open>_get_or_create_folder\<close>: the folder of the given name under the effective parent
  (the parent, or else the configured root folder); when there is none it is created.
  With no effective parent the search goes over all folders and nothing is created.
\<close>

definition get_or_create_folder ::
  "string option \<Rightarrow> string \<Rightarrow> string list option \<Rightarrow> (string list, storage) eff" where
  "get_or_create_folder root_folder_id folder_name parent_id =
     (let effective_parent =
            (case parent_id of
               Some p \<Rightarrow> Some p
             | None \<Rightarrow> (case root_folder_id of
                          None \<Rightarrow> None
                        | Some rid \<Rightarrow> if rid = [] then None else Some [rid]))
      in andthen (listing (\<lambda>s. filter (\<lambda>p. p \<noteq> [] \<and> last p = folder_name \<and>
                                          (case effective_parent of
                                             None \<Rightarrow> True
                                           | Some parent \<Rightarrow> butlast p = parent))
                                  (drive_folders s))) (\<lambda>files.
         case files of
           found # others \<Rightarrow> returnE found
         | [] \<Rightarrow>
             (case effective_parent of
                None \<Rightarrow> raiseE ValueError
              | Some parent \<Rightarrow>
                  andthen (attempt (\<lambda>s. s\<lparr>drive_folders := drive_folders s @ [parent @ [folder_name]]\<rparr>))
                    (\<lambda>_. returnE (parent @ [folder_name])))))"

text \<open>\<open>files().create(...)\<close> of a file adds a file; it replaces none.\<close>

definition drive_create_file :: "string list \<Rightarrow> string \<Rightarrow> string \<Rightarrow> (unit, storage) eff" where
  "drive_create_file parent name data =
     attempt (\<lambda>s. s\<lparr>drive_files := drive_files s @ [(parent, name, data)]\<rparr>)"

definition GDrive_upload_test_case ::
  "string option \<Rightarrow> string \<Rightarrow> ident \<Rightarrow> int \<Rightarrow> pyval \<Rightarrow> pyval \<Rightarrow> (unit, storage) eff" where
  "GDrive_upload_test_case root_folder_id container_name db_problem_id test_number input_data output_data =
     andthen (get_or_create_folder root_folder_id container_name None) (\<lambda>container_folder.
     andthen (get_or_create_folder root_folder_id ''test_cases'' (Some container_folder)) (\<lambda>test_cases_folder.
     andthen (get_or_create_folder root_folder_id (str_ident db_problem_id) (Some test_cases_folder)) (\<lambda>problem_folder.
     let input_filename = fmt02d test_number
     in andthen (liftE (py_encode input_data)) (\<lambda>body.
        andthen (drive_create_file problem_folder input_filename body) (\<lambda>_.
        let output_filename = fmt02d test_number @ ''.a''
        in andthen (liftE (py_encode output_data)) (\<lambda>body.
           drive_create_file problem_folder output_filename body))))))"

text \<open>
  \<open>empty_blob\<close> deletes what is named like the problem inside the folder
  \<open>test_cases\<close>; deleting a folder removes what lies in it.
\<close>

datatype drive_item = Folder "string list" | File "string list" string

definition drive_delete :: "drive_item \<Rightarrow> (unit, storage) eff" where
  "drive_delete item =
     (case item of
        Folder p \<Rightarrow>
          attempt (\<lambda>s. s\<lparr>drive_folders := filter (\<lambda>q. \<not> prefix p q) (drive_folders s),
                          drive_files := filter (\<lambda>(parent, name, data). \<not> prefix p parent) (drive_files s)\<rparr>)
      | File parent name \<Rightarrow>
          attempt (\<lambda>s. s\<lparr>drive_files := filter (\<lambda>(parent', name', data). \<not> (parent' = parent \<and> name' = name))
                                            (drive_files s)\<rparr>))"

fun drive_delete_each :: "drive_item list \<Rightarrow> (unit, storage) eff" where
  "drive_delete_each [] = returnE ()"
| "drive_delete_each (item # later) = andthen (drive_delete item) (\<lambda>_. drive_delete_each later)"

definition GDrive_empty_blob :: "string option \<Rightarrow> string \<Rightarrow> ident \<Rightarrow> (unit, storage) eff" where
  "GDrive_empty_blob root_folder_id container_name problem_id =
     andthen (get_or_create_folder root_folder_id container_name None) (\<lambda>container_folder.
     andthen (get_or_create_folder root_folder_id ''test_cases'' (Some container_folder)) (\<lambda>test_cases_folder.
     andthen (listing (\<lambda>s.
        map Folder (filter (\<lambda>p. p = test_cases_folder @ [str_ident problem_id]) (drive_folders s)) @
        map (\<lambda>(parent, name, data). File parent name)
          (filter (\<lambda>(parent, name, data). parent = test_cases_folder \<and> name = str_ident problem_id)
             (drive_files s)))) (\<lambda>files.
     drive_delete_each files)))"

text \<open>\<open>file_path.split('/')\<close>.\<close>

fun split_slash :: "string \<Rightarrow> string list" where
  "split_slash [] = [[]]"
| "split_slash (c # cs) =
     (if c = CHR ''/'' then [] # split_slash cs
      else (case split_slash cs of
              [] \<Rightarrow> [[c]]
            | part # parts \<Rightarrow> (c # part) # parts))"

fun drive_folders_along :: "string option \<Rightarrow> string list \<Rightarrow> string list \<Rightarrow> (string list, storage) eff" where
  "drive_folders_along root_folder_id parent_id [] = returnE parent_id"
| "drive_folders_along root_folder_id parent_id (folder_name # later) =
     andthen (get_or_create_folder root_folder_id folder_name (Some parent_id)) (\<lambda>parent_id.
     drive_folders_along root_folder_id parent_id later)"

definition GDrive_upload_file :: "string option \<Rightarrow> string \<Rightarrow> string \<Rightarrow> string \<Rightarrow> (unit, storage) eff" where
  "GDrive_upload_file root_folder_id container_name file_path file_data =
     andthen (get_or_create_folder root_folder_id container_name None) (\<lambda>container_folder.
     let parts = split_slash file_path
     in andthen (drive_folders_along root_folder_id container_folder (butlast parts)) (\<lambda>parent_id.
        let filename = last parts
        in drive_create_file parent_id filename file_data))"

subsection \<open>The storage manager and its selection\<close>

datatype storage_manager =
    LocalStorageManager string
  | GoogleDriveStorageManager "string option"
  | R2StorageManager
  | S3StorageManager
  | AzureBlobManager

fun upload_test_case ::
  "storage_manager \<Rightarrow> string \<Rightarrow> ident \<Rightarrow> int \<Rightarrow> pyval \<Rightarrow> pyval \<Rightarrow> (unit, storage) eff" where
  "upload_test_case (LocalStorageManager base_path) = Local_upload_test_case base_path"
| "upload_test_case (GoogleDriveStorageManager root_folder_id) = GDrive_upload_test_case root_folder_id"
| "upload_test_case R2StorageManager = R2_upload_test_case"
| "upload_test_case S3StorageManager = S3_upload_test_case"
| "upload_test_case AzureBlobManager = Azure_upload_test_case"

fun empty_blob :: "storage_manager \<Rightarrow> string \<Rightarrow> ident \<Rightarrow> (unit, storage) eff" where
  "empty_blob (LocalStorageManager base_path) = Local_empty_blob base_path"
| "empty_blob (GoogleDriveStorageManager root_folder_id) = GDrive_empty_blob root_folder_id"
| "empty_blob R2StorageManager = R2_empty_blob"
| "empty_blob S3StorageManager = S3_empty_blob"
| "empty_blob AzureBlobManager = Azure_empty_blob"

fun upload_file :: "storage_manager \<Rightarrow> string \<Rightarrow> string \<Rightarrow> string \<Rightarrow> (unit, storage) eff" where
  "upload_file (LocalStorageManager base_path) = Local_upload_file base_path"
| "upload_file (GoogleDriveStorageManager root_folder_id) = GDrive_upload_file root_folder_id"
| "upload_file R2StorageManager = R2_upload_file"
| "upload_file S3StorageManager = S3_upload_file"
| "upload_file AzureBlobManager = Azure_upload_file"

text \<open>
  \<open>get_storage_manager\<close>: the manager for the configured tag. Building a manager is a
  call that can fail; the local manager creates its base directory.
\<close>

definition get_storage_manager :: "env \<Rightarrow> string option \<Rightarrow> (storage_manager, storage) eff" where
  "get_storage_manager env storage_type =
     (let storage_type =
            (case storage_type of
               Some t \<Rightarrow> t
             | None \<Rightarrow> (case STORAGE_TYPE env of Some t \<Rightarrow> t | None \<Rightarrow> ''local''))
      in if storage_type = ''local''
         then (let base_path =
                     (case LOCAL_STORAGE_PATH env of
                        None \<Rightarrow> path_join (BASE_DIR env) [''storage'']
                      | Some p \<Rightarrow> if p = [] then path_join (BASE_DIR env) [''storage''] else p)
               in andthen (makedirs base_path) (\<lambda>_. returnE (LocalStorageManager base_path)))
         else if storage_type = ''gdrive''
         then andthen (attempt (\<lambda>s. s)) (\<lambda>_. returnE (GoogleDriveStorageManager (GDRIVE_FOLDER_ID env)))
         else if storage_type = ''r2''
         then andthen (attempt (\<lambda>s. s)) (\<lambda>_. returnE R2StorageManager)
         else if storage_type = ''s3''
         then andthen (attempt (\<lambda>s. s)) (\<lambda>_. returnE S3StorageManager)
         else if storage_type = ''azure''
         then andthen (attempt (\<lambda>s. s)) (\<lambda>_. returnE AzureBlobManager)
         else raiseE ValueError)"

section \<open>PolygonAPI: checker and test-case migration\<close>

text \<open>\<open>s.endswith(p)\<close> and \<open>s + t\<close> for a string \<open>t\<close>.\<close>

fun py_endswith :: "pyval \<Rightarrow> string \<Rightarrow> exn + bool" where
  "py_endswith (PStr s) p = Inr (suffix p s)"
| "py_endswith PNone p = Inl AttributeError"
| "py_endswith (PBool b) p = Inl AttributeError"
| "py_endswith (PInt i) p = Inl AttributeError"
| "py_endswith (PList xs) p = Inl AttributeError"
| "py_endswith (PDict d) p = Inl AttributeError"

fun py_add_str :: "pyval \<Rightarrow> string \<Rightarrow> exn + pyval" where
  "py_add_str (PStr s) t = Inr (PStr (s @ t))"
| "py_add_str PNone t = Inl TypeError"
| "py_add_str (PBool b) t = Inl TypeError"
| "py_add_str (PInt i) t = Inl TypeError"
| "py_add_str (PList xs) t = Inl TypeError"
| "py_add_str (PDict d) t = Inl TypeError"

text \<open>
  \<open>fetch_custom_checker_file\<close>: as a source file, then as a resource file, then as a
  source file with \<open>.cpp\<close> appended when the name does not end in it; \<open>None\<close> when
  all fail.
\<close>

definition fetch_custom_checker_file :: "env \<Rightarrow> string \<Rightarrow> pyval \<Rightarrow> exn + pyval" where
  "fetch_custom_checker_file env problem_id checker_name =
     (case make_plain_request env ''problem.viewFile''
             [(''problemId'', PStr problem_id), (''type'', PStr ''source''),
              (''name'', checker_name)] of
        Inr content \<Rightarrow> Inr content
      | Inl e \<Rightarrow>
          (case make_plain_request env ''problem.viewFile''
                  [(''problemId'', PStr problem_id), (''type'', PStr ''resource''),
                   (''name'', checker_name)] of
             Inr content \<Rightarrow> Inr content
           | Inl e2 \<Rightarrow>
               (case py_endswith checker_name ''.cpp'' of
                  Inl e \<Rightarrow> Inl e
                | Inr ends \<Rightarrow>
                    if \<not> ends
                    then (case py_add_str checker_name ''.cpp'' of
                            Inl e \<Rightarrow> Inl e
                          | Inr name_cpp \<Rightarrow>
                              (case make_plain_request env ''problem.viewFile''
                                      [(''problemId'', PStr problem_id), (''type'', PStr ''source''),
                                       (''name'', name_cpp)] of
                                 Inr content \<Rightarrow> Inr content
                               | Inl e3 \<Rightarrow> Inr PNone))
                    else Inr PNone)))"

text \<open>
  The working directory of the compilation: \<open>CUSTOM_CHECKER_DIR\<close> when it is set (it
  is created when missing), the given directory otherwise.
\<close>

definition checker_work_dir :: "env \<Rightarrow> string \<Rightarrow> exn + string" where
  "checker_work_dir env temp_dir =
     (case CUSTOM_CHECKER_DIR env of
        None \<Rightarrow> Inr temp_dir
      | Some checker_dir \<Rightarrow>
          if checker_dir = [] then Inr temp_dir
          else if \<not> checker_dir_exists env
          then (case makedirs_error env of Some e \<Rightarrow> Inl e | None \<Rightarrow> Inr checker_dir)
          else Inr checker_dir)"

text \<open>Writing the source file: \<open>f.write(source_code)\<close> takes a string.\<close>

fun write_source :: "env \<Rightarrow> pyval \<Rightarrow> exn + string" where
  "write_source env (PStr source) = (case write_source_error env of Some e \<Rightarrow> Inl e | None \<Rightarrow> Inr source)"
| "write_source env PNone = Inl TypeError"
| "write_source env (PBool b) = Inl TypeError"
| "write_source env (PInt i) = Inl TypeError"
| "write_source env (PList xs) = Inl TypeError"
| "write_source env (PDict d) = Inl TypeError"

text \<open>
  \<open>compile_custom_checker\<close>: the path of the binary, or \<open>None\<close> when there is no
  compiler, the compiler fails or times out, or the binary is missing. Creating the
  directory and writing the source happen outside the \<open>try\<close>.
\<close>

definition compile_custom_checker :: "env \<Rightarrow> pyval \<Rightarrow> string \<Rightarrow> exn + string option" where
  "compile_custom_checker env source_code temp_dir =
     (case checker_work_dir env temp_dir of
        Inl e \<Rightarrow> Inl e
      | Inr temp_dir \<Rightarrow>
          (case which_gpp env of
             None \<Rightarrow> Inr None
           | Some gpp_path \<Rightarrow>
               if gpp_path = [] then Inr None
               else (case write_source env source_code of
                       Inl e \<Rightarrow> Inl e
                     | Inr source \<Rightarrow>
                         (let binary_filename = (if win32 env then ''custom_checker.exe'' else ''custom_checker'');
                              binary_file = path_join temp_dir [binary_filename]
                          in case run_gpp env source of
                               Exited returncode \<Rightarrow>
                                 if returncode = 0
                                 then (if binary_created env
                                       then (case chmod_error env of
                                               Some e \<Rightarrow> Inr None
                                             | None \<Rightarrow> Inr (Some binary_file))
                                       else Inr None)
                                 else Inr None
                             | TimeoutExpired \<Rightarrow> Inr None
                             | FileNotFound \<Rightarrow> Inr None
                             | RunFailed \<Rightarrow> Inr None))))"

text \<open>
  The part of \<open>upload_custom_checker_to_storage\<close> that both of its branches repeat:
  compile; without a binary upload the source, with one read it and upload it. A
  failed upload and an unreadable binary are logged and the function returns.
\<close>

definition compile_and_upload ::
  "env \<Rightarrow> storage_manager \<Rightarrow> string \<Rightarrow> string \<Rightarrow> ident option \<Rightarrow> string \<Rightarrow> pyval \<Rightarrow> (unit, storage) eff" where
  "compile_and_upload env storage_manager problem_id container_name db_problem_id temp_dir source_code =
     andthen (liftE (compile_custom_checker env source_code temp_dir)) (\<lambda>binary_path.
       case binary_path of
         None \<Rightarrow>
           try_except
             (let problem_id_for_naming = (case db_problem_id of Some d \<Rightarrow> d | None \<Rightarrow> StrId problem_id);
                  file_path = ''test_cases/'' @ str_ident problem_id_for_naming @ ''/custom_checker.cpp''
              in andthen (liftE (py_encode source_code)) (\<lambda>data.
                 upload_file storage_manager container_name file_path data))
             (\<lambda>e. returnE ())
       | Some binary_path \<Rightarrow>
           (case read_binary env binary_path of
              Inl e \<Rightarrow> returnE ()
            | Inr binary_data \<Rightarrow>
                (let problem_id_for_naming = (case db_problem_id of Some d \<Rightarrow> d | None \<Rightarrow> StrId problem_id);
                     blob_filename = (if win32 env then ''custom_checker.exe'' else ''custom_checker'');
                     file_path = ''test_cases/'' @ str_ident problem_id_for_naming @ ''/'' @ blob_filename
                 in try_except (upload_file storage_manager container_name file_path binary_data)
                      (\<lambda>e. returnE ()))))"

definition upload_custom_checker_to_storage ::
  "env \<Rightarrow> string \<Rightarrow> string \<Rightarrow> ident option \<Rightarrow> string option \<Rightarrow> (unit, storage) eff" where
  "upload_custom_checker_to_storage env problem_id container_name db_problem_id storage_type =
     (case get_custom_checker_info env problem_id of
        None \<Rightarrow> returnE ()
      | Some checker_info \<Rightarrow>
          andthen (liftE (py_item checker_info ''name'')) (\<lambda>checker_name.
          andthen (liftE (fetch_custom_checker_file env problem_id checker_name)) (\<lambda>source_code.
          if \<not> truthy source_code then returnE ()
          else andthen (get_storage_manager env storage_type) (\<lambda>storage_manager.
               case CUSTOM_CHECKER_DIR env of
                 None \<Rightarrow>
                   andthen (liftE (temporary_directory env)) (\<lambda>temp_dir.
                   compile_and_upload env storage_manager problem_id container_name db_problem_id
                     temp_dir source_code)
               | Some checker_dir \<Rightarrow>
                   if checker_dir = []
                   then andthen (liftE (temporary_directory env)) (\<lambda>temp_dir.
                        compile_and_upload env storage_manager problem_id container_name db_problem_id
                          temp_dir source_code)
                   else andthen (liftE (checker_work_dir env checker_dir)) (\<lambda>temp_dir.
                        compile_and_upload env storage_manager problem_id container_name db_problem_id
                          temp_dir source_code)))))"

subsection \<open>The migration of the test cases\<close>

text \<open>The cache and the storage together.\<close>

record world =
  cache :: redis
  cloud :: storage

definition on_cloud :: "('a, storage) eff \<Rightarrow> ('a, world) eff" where
  "on_cloud m w = (case m (cloud w) of (x, s) \<Rightarrow> (x, w\<lparr>cloud := s\<rparr>))"

text \<open>
  The loop \<open>for idx, test in enumerate(test_cases, start=1)\<close> of
  \<open>migrate_to_cloud_storage\<close>, from position \<open>idx\<close> on; it returns \<open>uploaded_count\<close>.
\<close>

fun upload_each :: "storage_manager \<Rightarrow> string \<Rightarrow> ident \<Rightarrow> int \<Rightarrow> pyval list \<Rightarrow> (nat, storage) eff" where
  "upload_each storage_manager container_name problem_id_for_naming idx [] = returnE 0"
| "upload_each storage_manager container_name problem_id_for_naming idx (test # rest) =
     andthen (liftE (py_get test ''input'' (PStr []))) (\<lambda>input_data.
     andthen (liftE (py_get test ''output'' (PStr []))) (\<lambda>output_data.
     if truthy input_data \<and> truthy output_data
     then andthen (upload_test_case storage_manager container_name problem_id_for_naming idx
                     input_data output_data) (\<lambda>_.
          andthen (upload_each storage_manager container_name problem_id_for_naming (idx + 1) rest)
            (\<lambda>uploaded_count. returnE (uploaded_count + 1)))
     else upload_each storage_manager container_name problem_id_for_naming (idx + 1) rest))"

text \<open>
  The test cases come from the cache, or on a miss from the remote API, and are then
  stored in the cache for half an hour.
\<close>

definition resolve_test_cases :: "env \<Rightarrow> string \<Rightarrow> string \<Rightarrow> (pyval list, world) eff" where
  "resolve_test_cases env problem_id testset w =
     (case get_test_cases_from_redis problem_id (cache w) of
        Some test_cases \<Rightarrow> (Inr test_cases, w)
      | None \<Rightarrow>
          (case get_all_test_cases env problem_id testset of
             Inl e \<Rightarrow> (Inl e, w)
           | Inr test_cases \<Rightarrow>
               (Inr test_cases,
                w\<lparr>cache := store_test_cases_in_redis problem_id test_cases (1 / 2) (cache w)\<rparr>)))"

definition migrate_to_cloud_storage ::
  "env \<Rightarrow> string \<Rightarrow> string \<Rightarrow> ident option \<Rightarrow> string \<Rightarrow> string option \<Rightarrow> (unit, world) eff" where
  "migrate_to_cloud_storage env problem_id container_name db_problem_id testset storage_type =
     andthen (resolve_test_cases env problem_id testset) (\<lambda>test_cases.
     andthen (on_cloud (get_storage_manager env storage_type)) (\<lambda>storage_manager.
     let problem_id_for_naming = (case db_problem_id of Some d \<Rightarrow> d | None \<Rightarrow> StrId problem_id)
     in andthen (on_cloud (empty_blob storage_manager container_name problem_id_for_naming)) (\<lambda>_.
        andthen (on_cloud (upload_each storage_manager container_name problem_id_for_naming 1 test_cases))
          (\<lambda>uploaded_count.
        on_cloud (upload_custom_checker_to_storage env problem_id container_name db_problem_id
                    storage_type)))))"

section \<open>The orchestrator: the view \<open>index\<close>\<close>

text \<open>
  What the view answers: the message of the page it renders. The database is not part
  of the state; its transaction is rolled back by the framework when the block raises.
\<close>

datatype page =
    Nothing_requested
  | Not_in_database
  | Container_not_configured
  | Migration_done
  | Migration_failed exn

text \<open>
  \<open>api.delete_azure_blob(...)\<close>: the class \<open>PolygonAPI\<close> defines no attribute of this
  name, so the call raises.
\<close>

definition delete_azure_blob :: "int \<Rightarrow> (unit, world) eff" where
  "delete_azure_blob azure_blob_problem_id = raiseE AttributeError"

text \<open>
  The handler \<open>except Exception as e\<close> of the view, entered with the values that
  \<open>azure_blob_uploaded\<close> and \<open>azure_blob_problem_id\<close> have at the time.
\<close>

definition failure_handler :: "string \<Rightarrow> bool \<Rightarrow> int option \<Rightarrow> exn \<Rightarrow> (page, world) eff" where
  "failure_handler polygon_id azure_blob_uploaded azure_blob_problem_id e =
     andthen (case azure_blob_problem_id of
                None \<Rightarrow> returnE ()
              | Some pk \<Rightarrow> if azure_blob_uploaded \<and> pk \<noteq> 0 then delete_azure_blob pk else returnE ())
       (\<lambda>_. andthen (\<lambda>w. (Inr (), w\<lparr>cache := clear_test_cases_from_redis polygon_id (cache w)\<rparr>))
       (\<lambda>_. returnE (Migration_failed e)))"

text \<open>
  The view for a POST request. \<open>problem_obj\<close> is the primary key of the database
  record of the problem, when there is one; \<open>remaining_steps\<close> stands for the
  statements of the transaction after the storage migration (the data for display and
  the database writes), which may change the cache and may raise.
\<close>

definition index ::
  "env \<Rightarrow> string \<Rightarrow> bool \<Rightarrow> int option \<Rightarrow> (unit, world) eff \<Rightarrow> (page, world) eff" where
  "index env polygon_id migrate_to_azure problem_obj remaining_steps w =
     (if polygon_id = [] then (Inr Nothing_requested, w)
      else if migrate_to_azure
      then (case problem_obj of
              None \<Rightarrow> (Inr Not_in_database, w)
            | Some problem_id \<Rightarrow>
                (case STORAGE_CONTAINER_NAME env of
                   None \<Rightarrow> (Inr Container_not_configured, w)
                 | Some container \<Rightarrow>
                     if container = [] then (Inr Container_not_configured, w)
                     else
                       (let storage_type = (case STORAGE_TYPE env of Some t \<Rightarrow> t | None \<Rightarrow> ''s3'');
                            w = w\<lparr>cache := delete_problem_test_case_cache problem_id (cache w)\<rparr>;
                            custom_checker_info = get_custom_checker_info env polygon_id
                        in case migrate_to_cloud_storage env polygon_id container
                                  (Some (IntId problem_id)) ''tests'' (Some storage_type) w of
                             (Inl e, w) \<Rightarrow> failure_handler polygon_id False None e w
                           | (Inr done, w) \<Rightarrow>
                               (case remaining_steps w of
                                  (Inl e, w) \<Rightarrow> failure_handler polygon_id True (Some problem_id) e w
                                | (Inr done, w) \<Rightarrow> (Inr Migration_done, w)))))
      else (case remaining_steps w of
              (Inl e, w) \<Rightarrow> failure_handler polygon_id False None e w
            | (Inr done, w) \<Rightarrow> (Inr Migration_done, w)))"

section \<open>Sample data\<close>




definition fresh_storage :: storage where
  "fresh_storage =
     \<lparr>faults = [], objects = (\<lambda>svc. []), local_files = [], local_dirs = [],
      drive_folders = [], drive_files = []\<rparr>"

definition sample_remote :: "bool \<Rightarrow> string \<Rightarrow> (string \<times> pyval) list \<Rightarrow> http_outcome" where
  "sample_remote delivers_source url post_params =
     (if url = API_URL @ ''problem.tests''
      then Response True []
             (Some (PDict [(''status'', PStr ''OK''),
                           (''result'', PList [PDict [(''index'', PInt 1), (''manual'', PBool True),
                                                      (''useInStatements'', PBool True)],
                                               PDict [(''index'', PInt 2)]])]))
      else if url = API_URL @ ''problem.testInput''
      then (if map_of post_params ''testIndex'' = Some (PInt 1)
            then Response True ''1 2\<newline>'' None else Response True ''3 4\<newline>'' None)
      else if url = API_URL @ ''problem.testAnswer''
      then (if map_of post_params ''testIndex'' = Some (PInt 1)
            then Response True ''3\<newline>'' None else Response True ''7\<newline>'' None)
      else if url = API_URL @ ''problem.checker''
      then Response True []
             (Some (PDict [(''status'', PStr ''OK''), (''result'', PStr ''check.cpp'')]))
      else if url = API_URL @ ''problem.viewFile'' \<and> delivers_source
      then Response True ''int main() { return 0; }'' None
      else RequestFailed)"

definition sample_env :: "bool \<Rightarrow> env" where
  "sample_env delivers_source =
     \<lparr>POLYGON_API_KEY = ''key'', POLYGON_API_SECRET = ''secret'', CUSTOM_CHECKER_DIR = None,
      STORAGE_TYPE = Some ''s3'', STORAGE_CONTAINER_NAME = Some ''judge'',
      LOCAL_STORAGE_PATH = None, BASE_DIR = ''/srv/app'', GDRIVE_FOLDER_ID = None,
      unix_time = 1700000000, nonce = ''a1b2c3'', sha512_hexdigest = (\<lambda>s. ''00''),
      py_repr = (\<lambda>v. []), http_post = sample_remote delivers_source, checker_dir_exists = False,
      makedirs_error = None, temporary_directory = Inr ''/tmp/checker'', which_gpp = None,
      write_source_error = None, win32 = False, run_gpp = (\<lambda>source. Exited 1),
      binary_created = False, chmod_error = None, read_binary = (\<lambda>p. Inl OSError)\<rparr>"

section \<open>Notions used to state the properties\<close>


text \<open>
  The object store that a manager writes to, when it is one of the three, and the body
  stored under a key of a container.
\<close>

fun service_of :: "storage_manager \<Rightarrow> service option" where
  "service_of S3StorageManager = Some S3_service"
| "service_of R2StorageManager = Some R2_service"
| "service_of AzureBlobManager = Some Azure_service"
| "service_of (LocalStorageManager base_path) = None"
| "service_of (GoogleDriveStorageManager root_folder_id) = None"

definition object_at :: "storage \<Rightarrow> service \<Rightarrow> string \<Rightarrow> string \<Rightarrow> string option" where
  "object_at s svc container k = map_of (objects s svc) (container, k)"



text \<open>The keys of the objects of a test case and of the two checker artifacts.\<close>

definition test_key :: "ident \<Rightarrow> int \<Rightarrow> string" where
  "test_key problem_key n = ''test_cases/'' @ str_ident problem_key @ ''/'' @ fmt02d n"






subsection \<open>Worlds with a populated cache\<close>



text \<open>
  The key that the specification gives to the input of test number \<open>n\<close>: the number
  written with exactly two decimal digits, padded with a zero, under the prefix of the
  problem.
\<close>

definition two_digits :: "int \<Rightarrow> string" where
  "two_digits n = [digit_char (nat n div 10), digit_char (nat n mod 10)]"

definition padded_key :: "ident \<Rightarrow> int \<Rightarrow> string" where
  "padded_key problem_key n = ''test_cases/'' @ str_ident problem_key @ ''/'' @ two_digits n"

(*DEFS-END*)

section \<open>Properties of the cache\<close>


lemma str_nat_nonempty: "str_nat n \<noteq> []"
  by (subst str_nat.simps) simp





lemma length_records_from [simp]: "length (records_from i tcs) = length tcs"
  by (induction tcs arbitrary: i) simp_all




lemma fetch_each_result:
  "up r \<Longrightarrow> fetch_each pfx idxs r = (Inr (List.map_filter (\<lambda>i. visible r (pfx @ ''_test_'' @ str_int i)) idxs), r)"
  by (induction idxs) (simp_all add: returnE_def andthen_def redis_get_def visible_def split: option.splits)










section \<open>Properties of the signature\<close>










section \<open>Properties of the two-digit rendering\<close>

lemma digit_char_in: "d < 10 \<Longrightarrow> digit_char d \<in> set ''0123456789''"
proof -
  assume "d < 10"
  then have "d \<in> {0,1,2,3,4,5,6,7,8,9}" by auto
  then show ?thesis by (auto simp: digit_char_def)
qed




lemma str_nat_small: "n < 10 \<Longrightarrow> str_nat n = [digit_char n]"
  by (simp add: str_nat.simps[of n])

lemma str_nat_two: "10 \<le> n \<Longrightarrow> n < 100 \<Longrightarrow> str_nat n = [digit_char (n div 10), digit_char (n mod 10)]"
  by (simp add: str_nat.simps[of n] str_nat_small)

lemma str_nat_length_ge2: "10 \<le> n \<Longrightarrow> 2 \<le> length (str_nat n)"
  using str_nat_nonempty[of "n div 10"]
  by (cases "str_nat (n div 10)") (simp_all add: str_nat.simps[of n])

lemma fmt02d_small: "0 \<le> n \<Longrightarrow> n < 10 \<Longrightarrow> fmt02d n = [CHR ''0'', digit_char (nat n)]"
  by (simp add: fmt02d_def str_nat_small numeral_2_eq_2)

lemma fmt02d_large: "10 \<le> n \<Longrightarrow> fmt02d n = str_nat (nat n)"
  using str_nat_length_ge2[of "nat n"] by (simp add: fmt02d_def)

lemma fmt02d_two_digits:
  assumes "1 \<le> n" and "n \<le> 99"
  shows "fmt02d n = [digit_char (nat n div 10), digit_char (nat n mod 10)]"
proof (cases "n < 10")
  case True
  with assms show ?thesis by (simp add: fmt02d_small digit_char_def)
next
  case False
  with assms show ?thesis using str_nat_two[of "nat n"] by (simp add: fmt02d_large)
qed




section \<open>The invalidation before a storage migration\<close>

lemma delete_problem_test_case_cache_fields:
  "up (delete_problem_test_case_cache pk r) = up r"
  "now (delete_problem_test_case_cache pk r) = now r"
  "kv (delete_problem_test_case_cache pk r) k =
     (if up r \<and> prefix (''oj_dev_with_redis_storage_test_cases_'' @ str_int pk) k then None else kv r k)"
  by (simp_all add: delete_problem_test_case_cache_def try_except_def redis_delete_matching_def returnE_def)

lemma get_test_cases_cong:
  assumes "up r = up r'" and "now r = now r'"
    and "\<And>k. prefix (cache_prefix pid) k \<Longrightarrow> kv r k = kv r' k"
  shows "get_test_cases_from_redis pid r = get_test_cases_from_redis pid r'"
proof (cases "up r")
  case False
  with assms(1) show ?thesis
    by (simp add: get_test_cases_from_redis_def andthen_def redis_get_def)
next
  case True
  with assms(1) have up': "up r'" by simp
  have vis: "visible r (cache_prefix pid @ suffix) = visible r' (cache_prefix pid @ suffix)" for suffix
    using assms(2) assms(3)[of "cache_prefix pid @ suffix"] by (simp add: visible_def split: option.splits)
  have count: "redis_get (cache_prefix pid @ ''_count'') r = (Inr (visible r (cache_prefix pid @ ''_count'')), r)"
    "redis_get (cache_prefix pid @ ''_count'') r' = (Inr (visible r' (cache_prefix pid @ ''_count'')), r')"
    using True up' by (simp_all add: redis_get_def visible_def)
  have each: "fst (fetch_each (cache_prefix pid) idxs r) = fst (fetch_each (cache_prefix pid) idxs r')" for idxs
    using fetch_each_result[OF True, of "cache_prefix pid" idxs] fetch_each_result[OF up', of "cache_prefix pid" idxs]
      vis by simp
  show ?thesis
  proof (cases "visible r' (cache_prefix pid @ ''_count'')")
    case None
    then show ?thesis using count vis[of "''_count''"]
      by (simp add: get_test_cases_from_redis_def andthen_def returnE_def)
  next
    case (Some c)
    show ?thesis
    proof (cases "int_of_bytes c")
      case (Inl e)
      then show ?thesis using Some count vis[of "''_count''"]
        by (simp add: get_test_cases_from_redis_def andthen_def returnE_def liftE_def)
    next
      case (Inr n)
      have "fetch_each (cache_prefix pid) [1..n] r = (fst (fetch_each (cache_prefix pid) [1..n] r), r)"
        using fetch_each_result[OF True, of "cache_prefix pid" "[1..n]"] by simp
      moreover have "fetch_each (cache_prefix pid) [1..n] r' = (fst (fetch_each (cache_prefix pid) [1..n] r'), r')"
        using fetch_each_result[OF up', of "cache_prefix pid" "[1..n]"] by simp
      ultimately show ?thesis using Inr Some count vis[of "''_count''"] each[of "[1..n]"]
        by (simp add: get_test_cases_from_redis_def andthen_def returnE_def liftE_def split: sum.splits prod.splits)
    qed
  qed
qed

lemma polygon_keys_kept:
  "prefix ''polygon_migration_test_cases_'' k \<Longrightarrow> kv (delete_problem_test_case_cache pk r) k = kv r k"
  by (auto simp: delete_problem_test_case_cache_fields prefix_def)

text \<open>
  Claim C2, as amended. The invalidation that the orchestrator performs before a
  storage migration deletes keys of the namespace
  \<open>oj_dev_with_redis_storage_test_cases_\<close> followed by the database identifier. It
  leaves every key of the namespace \<open>polygon_migration_test_cases_\<close> as it was, so
  a fetch of the cached test cases gives the same result after it as before it, and
  the resolution inside \<open>migrate_to_cloud_storage\<close> returns a cached list that was
  there and had not expired.
\<close>

theorem invalidation_keeps_cached_test_cases:
  "(\<forall>k. prefix ''polygon_migration_test_cases_'' k \<longrightarrow>
         kv (delete_problem_test_case_cache db_problem_id (cache w)) k = kv (cache w) k)
   \<and> get_test_cases_from_redis polygon_id (delete_problem_test_case_cache db_problem_id (cache w))
       = get_test_cases_from_redis polygon_id (cache w)
   \<and> (\<forall>test_cases. get_test_cases_from_redis polygon_id (cache w) = Some test_cases \<longrightarrow>
         fst (resolve_test_cases env polygon_id testset
               (w\<lparr>cache := delete_problem_test_case_cache db_problem_id (cache w)\<rparr>)) = Inr test_cases)"
proof -
  have same: "get_test_cases_from_redis polygon_id (delete_problem_test_case_cache db_problem_id (cache w))
       = get_test_cases_from_redis polygon_id (cache w)"
  proof (rule get_test_cases_cong)
    fix k assume "prefix (cache_prefix polygon_id) k"
    then have "prefix ''polygon_migration_test_cases_'' k"
      by (auto simp: cache_prefix_def prefix_def)
    then show "kv (delete_problem_test_case_cache db_problem_id (cache w)) k = kv (cache w) k"
      by (rule polygon_keys_kept)
  qed (simp_all add: delete_problem_test_case_cache_fields)
  then show ?thesis
    by (auto simp: polygon_keys_kept resolve_test_cases_def)
qed

section \<open>The sample environment\<close>








section \<open>Fields of cached and of fetched test cases; the checker lookup\<close>








text \<open>
  Claim C10. \<open>get_custom_checker_info\<close> returns \<open>None\<close> when the request for the
  checker raises, whatever the exception, and when the checker name starts with
  \<open>std::\<close>. In both cases \<open>upload_custom_checker_to_storage\<close> returns normally and
  leaves the storage as it was: the checker migration is skipped without an error.
\<close>

theorem checker_lookup_failure_is_silent:
  "(\<forall>e. make_request env ''problem.checker'' [(''problemId'', PStr problem_id)] True = Inl e \<longrightarrow>
        get_custom_checker_info env problem_id = None
      \<and> upload_custom_checker_to_storage env problem_id container_name db_problem_id storage_type s = (Inr (), s))
   \<and> (\<forall>name. make_request env ''problem.checker'' [(''problemId'', PStr problem_id)] True = Inr (PStr name)
           \<and> prefix ''std::'' name \<longrightarrow>
        get_custom_checker_info env problem_id = None
      \<and> upload_custom_checker_to_storage env problem_id container_name db_problem_id storage_type s = (Inr (), s))"
  by (auto simp: get_custom_checker_info_def upload_custom_checker_to_storage_def returnE_def)

theorem checker_lookup_failure_is_silent_witness:
  "make_request ((sample_env False)\<lparr>http_post := (\<lambda>url post_params. RequestFailed)\<rparr>) ''problem.checker''
     [(''problemId'', PStr ''1001'')] True = Inl HTTPRequestError
   \<and> get_custom_checker_info ((sample_env False)\<lparr>http_post := (\<lambda>url post_params. RequestFailed)\<rparr>) ''1001'' = None
   \<and> upload_custom_checker_to_storage ((sample_env False)\<lparr>http_post := (\<lambda>url post_params. RequestFailed)\<rparr>)
        ''1001'' ''judge'' (Some (IntId 7)) (Some ''s3'') fresh_storage = (Inr (), fresh_storage)"
proof -
  have failed: "make_request ((sample_env False)\<lparr>http_post := (\<lambda>url post_params. RequestFailed)\<rparr>) ''problem.checker''
     [(''problemId'', PStr ''1001'')] True = Inl HTTPRequestError"
    by (simp add: make_request_def Let_def split_def)
  with checker_lookup_failure_is_silent[of "(sample_env False)\<lparr>http_post := (\<lambda>url post_params. RequestFailed)\<rparr>"
      "''1001''" "''judge''" "Some (IntId 7)" "Some ''s3''" fresh_storage]
  show ?thesis by blast
qed

section \<open>The object stores\<close>

lemma attempt_ok: "faults s = [] \<Longrightarrow> attempt f s = (Inr (), f s)"
  by (simp add: attempt_def)

lemma listing_ok: "faults s = [] \<Longrightarrow> listing f s = (Inr (f s), s)"
  by (simp add: listing_def)


lemma put_object_ok:
  assumes "faults s = []"
  shows "\<exists>s'. put_object svc c k body s = (Inr (), s') \<and> faults s' = []
           \<and> (\<forall>svc' c' k'. object_at s' svc' c' k' =
                 (if svc' = svc \<and> c' = c \<and> k' = k then Some body else object_at s svc' c' k'))"
  using assms by (simp add: put_object_def attempt_ok object_at_def update_conv')








lemma blob_upload_test_case:
  assumes "service_of mgr = Some svc" and "faults s = []"
  shows "\<exists>s'. upload_test_case mgr c pid n (PStr i) (PStr out) s = (Inr (), s') \<and> faults s' = []
           \<and> (\<forall>svc' c' k'. object_at s' svc' c' k' =
                 (if svc' = svc \<and> c' = c \<and> k' = test_key pid n @ ''.a'' then Some out
                  else if svc' = svc \<and> c' = c \<and> k' = test_key pid n then Some i
                  else object_at s svc' c' k'))"
proof -
  from put_object_ok[OF assms(2), of svc c "test_key pid n" i]
  obtain s1 where s1: "put_object svc c (test_key pid n) i s = (Inr (), s1)" "faults s1 = []"
    and o1: "\<forall>svc' c' k'. object_at s1 svc' c' k' =
                 (if svc' = svc \<and> c' = c \<and> k' = test_key pid n then Some i else object_at s svc' c' k')"
    by blast
  from put_object_ok[OF s1(2), of svc c "test_key pid n @ ''.a''" out]
  obtain s2 where s2: "put_object svc c (test_key pid n @ ''.a'') out s1 = (Inr (), s2)" "faults s2 = []"
    and o2: "\<forall>svc' c' k'. object_at s2 svc' c' k' =
                 (if svc' = svc \<and> c' = c \<and> k' = test_key pid n @ ''.a'' then Some out else object_at s1 svc' c' k')"
    by blast
  have "upload_test_case mgr c pid n (PStr i) (PStr out) s = (Inr (), s2)"
    using assms(1) s1 s2
    by (cases mgr)
      (simp_all add: S3_upload_test_case_def R2_upload_test_case_def Azure_upload_test_case_def
        andthen_def liftE_def Let_def test_key_def)
  with s2 o1 o2 show ?thesis by auto
qed
















section \<open>The checker step\<close>










section \<open>The migration to an object store\<close>














section \<open>The checker of a migrated problem\<close>












section \<open>The keys of the test cases on every backend\<close>

lemma prefix_slash: "prefix ''/'' xs \<longleftrightarrow> xs \<noteq> [] \<and> hd xs = CHR ''/''"
  by (cases xs) auto

lemma suffix_slash: "suffix ''/'' xs \<longleftrightarrow> xs \<noteq> [] \<and> last xs = CHR ''/''"
  by (cases xs rule: rev_cases) (auto simp: suffix_def)

lemma path_join2_plain:
  "b \<noteq> [] \<Longrightarrow> hd b \<noteq> CHR ''/'' \<Longrightarrow> a \<noteq> [] \<Longrightarrow> last a \<noteq> CHR ''/'' \<Longrightarrow> path_join2 a b = a @ ''/'' @ b"
  by (simp add: path_join2_def prefix_slash suffix_slash)

lemma path_join2_append:
  "b \<noteq> [] \<Longrightarrow> hd b \<noteq> CHR ''/'' \<Longrightarrow> path_join2 a (b @ r) = path_join2 a b @ r"
  by (simp add: path_join2_def prefix_slash suffix_slash)

lemma path_join2_last:
  "b \<noteq> [] \<Longrightarrow> hd b \<noteq> CHR ''/'' \<Longrightarrow> path_join2 a b \<noteq> [] \<and> last (path_join2 a b) = last b"
  by (simp add: path_join2_def prefix_slash suffix_slash)

lemma two_digits_plain: "n < 100 \<Longrightarrow> two_digits n \<noteq> [] \<and> hd (two_digits n) \<noteq> CHR ''/''"
proof -
  assume "n < 100"
  then have "nat n div 10 < 10" by simp
  from digit_char_in[OF this] show ?thesis by (auto simp: two_digits_def)
qed

lemma local_key_path:
  assumes "k \<noteq> []" and "CHR ''/'' \<notin> set k" and "r \<noteq> []" and "hd r \<noteq> CHR ''/''"
  shows "path_join2 (path_join base [c, ''test_cases'', k]) r =
           path_join base [c, ''test_cases/'' @ k @ ''/'' @ r]"
proof -
  let ?X = "path_join2 base c"
  let ?Y = "path_join2 ?X ''test_cases''"
  from assms(1) have "hd k \<in> set k" and "last k \<in> set k" by simp_all
  with assms(2) have hk: "hd k \<noteq> CHR ''/''" and lk: "last k \<noteq> CHR ''/''" by auto
  have y: "?Y \<noteq> [] \<and> last ?Y = last ''test_cases''" by (rule path_join2_last) simp_all
  then have z: "path_join2 ?Y k = ?Y @ ''/'' @ k"
    using path_join2_plain[OF assms(1) hk, of ?Y] by simp
  have "path_join2 (?Y @ ''/'' @ k) r = (?Y @ ''/'' @ k) @ ''/'' @ r"
    using assms(1) lk by (intro path_join2_plain[OF assms(3,4)]) simp_all
  moreover have "path_join2 ?X (''test_cases'' @ (''/'' @ k @ ''/'' @ r)) = ?Y @ (''/'' @ k @ ''/'' @ r)"
    by (rule path_join2_append) simp_all
  ultimately show ?thesis using z by (simp add: path_join_def)
qed

lemma write_file_ok:
  "faults s = [] \<Longrightarrow>
     write_file p data s = (Inr (), s\<lparr>local_files := AList.update p data (local_files s)\<rparr>)"
  by (simp add: write_file_def attempt_ok)

lemma local_upload_test_case:
  assumes "faults s = []"
    and "map_of (local_files s) (path_join base [c, ''test_cases'', str_ident pk]) = None"
    and "a \<noteq> b"
    and "path_join (path_join base [c, ''test_cases'', str_ident pk]) [fmt02d n] = a"
    and "path_join (path_join base [c, ''test_cases'', str_ident pk]) [fmt02d n @ ''.a''] = b"
  shows "fst (Local_upload_test_case base c pk n (PStr i) (PStr out) s) = Inr ()
     \<and> map_of (local_files (snd (Local_upload_test_case base c pk n (PStr i) (PStr out) s))) a = Some i
     \<and> map_of (local_files (snd (Local_upload_test_case base c pk n (PStr i) (PStr out) s))) b = Some out"
  using assms
  by (simp add: Local_upload_test_case_def makedirs_def attempt_ok andthen_def write_file_ok Let_def
      update_conv')

lemma get_or_create_folder_ok:
  assumes "faults s = []"
    and "(case parent_id of
            Some p \<Rightarrow> Some p
          | None \<Rightarrow> (case root_folder_id of
                       None \<Rightarrow> None
                     | Some rid \<Rightarrow> if rid = [] then None else Some [rid])) = Some parent"
  shows "\<exists>s'. get_or_create_folder root_folder_id folder_name parent_id s = (Inr (parent @ [folder_name]), s')
           \<and> faults s' = [] \<and> drive_files s' = drive_files s"
proof -
  let ?found = "filter (\<lambda>p. p \<noteq> [] \<and> last p = folder_name \<and> butlast p = parent) (drive_folders s)"
  show ?thesis
  proof (cases ?found)
    case Nil
    with assms show ?thesis
      by (simp add: get_or_create_folder_def andthen_def listing_ok attempt_ok returnE_def)
  next
    case (Cons found others)
    then have "found \<in> set ?found" by simp
    then have "found \<noteq> [] \<and> last found = folder_name \<and> butlast found = parent" by simp
    then have "found = parent @ [folder_name]" by (metis append_butlast_last_id)
    with Cons assms show ?thesis
      by (simp add: get_or_create_folder_def andthen_def listing_ok returnE_def)
  qed
qed

lemma drive_upload_test_case:
  assumes "faults s = []" and "rid \<noteq> []"
  shows "fst (GDrive_upload_test_case (Some rid) c pk n (PStr i) (PStr out) s) = Inr ()
     \<and> drive_files (snd (GDrive_upload_test_case (Some rid) c pk n (PStr i) (PStr out) s)) =
         drive_files s @ [([rid, c, ''test_cases'', str_ident pk], fmt02d n, i),
                          ([rid, c, ''test_cases'', str_ident pk], fmt02d n @ ''.a'', out)]"
proof -
  from get_or_create_folder_ok[where s = s and parent_id = None and root_folder_id = "Some rid" and parent = "[rid]" and folder_name = c] assms
  obtain s1 where s1: "get_or_create_folder (Some rid) c None s = (Inr [rid, c], s1)"
    "faults s1 = []" "drive_files s1 = drive_files s" by auto
  from get_or_create_folder_ok[where s = s1 and parent_id = "Some [rid, c]" and root_folder_id = "Some rid" and parent = "[rid, c]" and folder_name = "''test_cases''"] s1(2)
  obtain s2 where s2: "get_or_create_folder (Some rid) ''test_cases'' (Some [rid, c]) s1 = (Inr [rid, c, ''test_cases''], s2)"
    "faults s2 = []" "drive_files s2 = drive_files s1" by auto
  from get_or_create_folder_ok[where s = s2 and parent_id = "Some [rid, c, ''test_cases'']" and root_folder_id = "Some rid" and parent = "[rid, c, ''test_cases'']" and folder_name = "str_ident pk"] s2(2)
  obtain s3 where s3: "get_or_create_folder (Some rid) (str_ident pk) (Some [rid, c, ''test_cases'']) s2
       = (Inr [rid, c, ''test_cases'', str_ident pk], s3)"
    "faults s3 = []" "drive_files s3 = drive_files s2" by auto
  show ?thesis
    using s1 s2 s3
    by (simp add: GDrive_upload_test_case_def andthen_def liftE_def drive_create_file_def attempt_ok Let_def)
qed

lemma padded_key_eq: "1 \<le> n \<Longrightarrow> n \<le> 99 \<Longrightarrow> test_key pk n = padded_key pk n"
  by (simp add: test_key_def padded_key_def two_digits_def fmt02d_two_digits)

text \<open>
  Claim C4. For every storage backend and every test number \<open>n\<close> from 1 to 99,
  \<open>upload_test_case\<close> stores the input under \<open>test_cases/{problemKey}/{NN}\<close>, where
  \<open>NN\<close> is \<open>n\<close> written with exactly two digits, and the output under the same key
  with \<open>.a\<close> appended: as objects of the container on the three object stores, as
  files below the container directory on the local file system, and as files named
  \<open>NN\<close> and \<open>NN.a\<close> in the folder of the problem on Google Drive.
\<close>

theorem test_case_keys_have_two_digits:
  assumes "1 \<le> n" and "n \<le> 99" and "faults s = []"
  shows "(\<forall>storage_manager svc. service_of storage_manager = Some svc \<longrightarrow>
            fst (upload_test_case storage_manager container_name db_problem_id n
                   (PStr input_data) (PStr output_data) s) = Inr ()
          \<and> object_at (snd (upload_test_case storage_manager container_name db_problem_id n
                   (PStr input_data) (PStr output_data) s)) svc container_name
               (padded_key db_problem_id n) = Some input_data
          \<and> object_at (snd (upload_test_case storage_manager container_name db_problem_id n
                   (PStr input_data) (PStr output_data) s)) svc container_name
               (padded_key db_problem_id n @ ''.a'') = Some output_data)
     \<and> (str_ident db_problem_id \<noteq> [] \<and> CHR ''/'' \<notin> set (str_ident db_problem_id)
          \<and> map_of (local_files s)
               (path_join base_path [container_name, ''test_cases'', str_ident db_problem_id]) = None \<longrightarrow>
            fst (upload_test_case (LocalStorageManager base_path) container_name db_problem_id n
                   (PStr input_data) (PStr output_data) s) = Inr ()
          \<and> map_of (local_files (snd (upload_test_case (LocalStorageManager base_path) container_name
                   db_problem_id n (PStr input_data) (PStr output_data) s)))
               (path_join base_path [container_name, padded_key db_problem_id n]) = Some input_data
          \<and> map_of (local_files (snd (upload_test_case (LocalStorageManager base_path) container_name
                   db_problem_id n (PStr input_data) (PStr output_data) s)))
               (path_join base_path [container_name, padded_key db_problem_id n @ ''.a'']) = Some output_data)
     \<and> (root_folder_id \<noteq> [] \<longrightarrow>
            fst (upload_test_case (GoogleDriveStorageManager (Some root_folder_id)) container_name
                   db_problem_id n (PStr input_data) (PStr output_data) s) = Inr ()
          \<and> drive_files (snd (upload_test_case (GoogleDriveStorageManager (Some root_folder_id))
                   container_name db_problem_id n (PStr input_data) (PStr output_data) s)) =
              drive_files s @
                [([root_folder_id, container_name, ''test_cases'', str_ident db_problem_id],
                  two_digits n, input_data),
                 ([root_folder_id, container_name, ''test_cases'', str_ident db_problem_id],
                  two_digits n @ ''.a'', output_data)])"
proof (intro conjI allI impI)
  fix storage_manager svc
  assume mgr: "service_of storage_manager = Some svc"
  from blob_upload_test_case[OF mgr assms(3), of container_name db_problem_id n input_data output_data]
  obtain s' where s': "upload_test_case storage_manager container_name db_problem_id n
                   (PStr input_data) (PStr output_data) s = (Inr (), s')"
    and o: "\<forall>svc' c' k'. object_at s' svc' c' k' =
                 (if svc' = svc \<and> c' = container_name \<and> k' = test_key db_problem_id n @ ''.a'' then Some output_data
                  else if svc' = svc \<and> c' = container_name \<and> k' = test_key db_problem_id n then Some input_data
                  else object_at s svc' c' k')"
    by blast
  note k = padded_key_eq[OF assms(1,2), of db_problem_id]
  from s' show "fst (upload_test_case storage_manager container_name db_problem_id n
                   (PStr input_data) (PStr output_data) s) = Inr ()" by simp
  from s' o k show "object_at (snd (upload_test_case storage_manager container_name db_problem_id n
                   (PStr input_data) (PStr output_data) s)) svc container_name
               (padded_key db_problem_id n) = Some input_data" by simp
  from s' o k show "object_at (snd (upload_test_case storage_manager container_name db_problem_id n
                   (PStr input_data) (PStr output_data) s)) svc container_name
               (padded_key db_problem_id n @ ''.a'') = Some output_data" by simp
next
  let ?k = "str_ident db_problem_id"
  let ?dir = "path_join base_path [container_name, ''test_cases'', ?k]"
  let ?a = "path_join base_path [container_name, padded_key db_problem_id n]"
  let ?b = "path_join base_path [container_name, padded_key db_problem_id n @ ''.a'']"
  assume h: "?k \<noteq> [] \<and> CHR ''/'' \<notin> set ?k \<and> map_of (local_files s) ?dir = None"
  from assms(2) have d: "two_digits n \<noteq> [] \<and> hd (two_digits n) \<noteq> CHR ''/''"
    by (intro two_digits_plain) simp
  from assms(1,2) have f: "fmt02d n = two_digits n" by (simp add: fmt02d_two_digits two_digits_def)
  have a: "path_join ?dir [fmt02d n] = ?a"
    using local_key_path[of ?k "two_digits n" base_path container_name] h d
    by (simp add: f padded_key_def path_join_def)
  have b: "path_join ?dir [fmt02d n @ ''.a''] = ?b"
    using local_key_path[of ?k "two_digits n @ ''.a''" base_path container_name] h d
    by (simp add: f padded_key_def path_join_def)
  have "?b = ?a @ ''.a''"
    using path_join2_append[of "padded_key db_problem_id n" "path_join2 base_path container_name" "''.a''"]
    by (simp add: path_join_def padded_key_def)
  then have ne: "?a \<noteq> ?b" by simp
  from h have free: "map_of (local_files s) ?dir = None" by simp
  note u = local_upload_test_case[OF assms(3) free ne a b, of input_data output_data]
  from u show "fst (upload_test_case (LocalStorageManager base_path) container_name db_problem_id n
                   (PStr input_data) (PStr output_data) s) = Inr ()" by simp
  from u show "map_of (local_files (snd (upload_test_case (LocalStorageManager base_path) container_name
                   db_problem_id n (PStr input_data) (PStr output_data) s))) ?a = Some input_data" by simp
  from u show "map_of (local_files (snd (upload_test_case (LocalStorageManager base_path) container_name
                   db_problem_id n (PStr input_data) (PStr output_data) s))) ?b = Some output_data" by simp
next
  assume r: "root_folder_id \<noteq> []"
  from assms(1,2) have f: "fmt02d n = two_digits n" by (simp add: fmt02d_two_digits two_digits_def)
  note u = drive_upload_test_case[OF assms(3) r, of container_name db_problem_id n input_data output_data]
  from u show "fst (upload_test_case (GoogleDriveStorageManager (Some root_folder_id)) container_name
                   db_problem_id n (PStr input_data) (PStr output_data) s) = Inr ()" by simp
  from u f show "drive_files (snd (upload_test_case (GoogleDriveStorageManager (Some root_folder_id))
                   container_name db_problem_id n (PStr input_data) (PStr output_data) s)) =
              drive_files s @
                [([root_folder_id, container_name, ''test_cases'', str_ident db_problem_id],
                  two_digits n, input_data),
                 ([root_folder_id, container_name, ''test_cases'', str_ident db_problem_id],
                  two_digits n @ ''.a'', output_data)]" by simp
qed

theorem test_case_keys_have_two_digits_witness:
  "object_at (snd (upload_test_case S3StorageManager ''judge'' (IntId 7) 5 (PStr ''1 2'') (PStr ''3'')
      fresh_storage)) S3_service ''judge'' ''test_cases/7/05'' = Some ''1 2''
   \<and> object_at (snd (upload_test_case S3StorageManager ''judge'' (IntId 7) 5 (PStr ''1 2'') (PStr ''3'')
      fresh_storage)) S3_service ''judge'' ''test_cases/7/05.a'' = Some ''3''
   \<and> map_of (local_files (snd (upload_test_case (LocalStorageManager ''/data'') ''judge'' (IntId 7) 42
      (PStr ''1 2'') (PStr ''3'') fresh_storage))) ''/data/judge/test_cases/7/42'' = Some ''1 2''
   \<and> map_of (local_files (snd (upload_test_case (LocalStorageManager ''/data'') ''judge'' (IntId 7) 42
      (PStr ''1 2'') (PStr ''3'') fresh_storage))) ''/data/judge/test_cases/7/42.a'' = Some ''3''
   \<and> drive_files (snd (upload_test_case (GoogleDriveStorageManager (Some ''root'')) ''judge'' (IntId 7) 9
      (PStr ''1 2'') (PStr ''3'') fresh_storage)) =
        [([''root'', ''judge'', ''test_cases'', ''7''], ''09'', ''1 2''),
         ([''root'', ''judge'', ''test_cases'', ''7''], ''09.a'', ''3'')]"
proof -
  have f: "faults fresh_storage = []" by (simp add: fresh_storage_def)
  have k: "str_int 7 = ''7''" by (simp add: str_int_def str_nat.simps digit_char_def)
  have free: "map_of (local_files fresh_storage) (path_join ''/data'' [''judge'', ''test_cases'', ''7'']) = None"
    by (simp add: fresh_storage_def)
  have p5: "padded_key (IntId 7) 5 = ''test_cases/7/05''" "two_digits 9 = ''09''"
    "padded_key (IntId 7) 42 = ''test_cases/7/42''"
    by (simp_all add: padded_key_def two_digits_def k digit_char_def)
  have j: "path_join ''/data'' [''judge'', ''test_cases/7/42''] = ''/data/judge/test_cases/7/42''"
    "path_join ''/data'' [''judge'', ''test_cases/7/42.a''] = ''/data/judge/test_cases/7/42.a''"
    by (simp_all add: path_join_def path_join2_def prefix_slash suffix_slash)
  have d: "drive_files fresh_storage = []" by (simp add: fresh_storage_def)
  have n5: "1 \<le> (5::int)" "(5::int) \<le> 99" and n42: "1 \<le> (42::int)" "(42::int) \<le> 99"
    and n9: "1 \<le> (9::int)" "(9::int) \<le> 99" by simp_all
  note a = test_case_keys_have_two_digits[OF n5 f, where container_name = "''judge''"
      and db_problem_id = "IntId 7" and input_data = "''1 2''" and output_data = "''3''"
      and base_path = "''/data''" and root_folder_id = "''root''",
      THEN conjunct1, rule_format, of S3StorageManager S3_service]
  note b = test_case_keys_have_two_digits[OF n42 f, where container_name = "''judge''"
      and db_problem_id = "IntId 7" and input_data = "''1 2''" and output_data = "''3''"
      and base_path = "''/data''" and root_folder_id = "''root''",
      THEN conjunct2, THEN conjunct1]
  note c = test_case_keys_have_two_digits[OF n9 f, where container_name = "''judge''"
      and db_problem_id = "IntId 7" and input_data = "''1 2''" and output_data = "''3''"
      and base_path = "''/data''" and root_folder_id = "''root''",
      THEN conjunct2, THEN conjunct2]
  from a have a': "object_at (snd (upload_test_case S3StorageManager ''judge'' (IntId 7) 5 (PStr ''1 2'') (PStr ''3'')
      fresh_storage)) S3_service ''judge'' ''test_cases/7/05'' = Some ''1 2''
   \<and> object_at (snd (upload_test_case S3StorageManager ''judge'' (IntId 7) 5 (PStr ''1 2'') (PStr ''3'')
      fresh_storage)) S3_service ''judge'' ''test_cases/7/05.a'' = Some ''3''"
    by (simp add: p5)
  from b free have b': "map_of (local_files (snd (upload_test_case (LocalStorageManager ''/data'') ''judge'' (IntId 7) 42
      (PStr ''1 2'') (PStr ''3'') fresh_storage))) ''/data/judge/test_cases/7/42'' = Some ''1 2''
   \<and> map_of (local_files (snd (upload_test_case (LocalStorageManager ''/data'') ''judge'' (IntId 7) 42
      (PStr ''1 2'') (PStr ''3'') fresh_storage))) ''/data/judge/test_cases/7/42.a'' = Some ''3''"
    by (simp add: p5 k j)
  from c d have c': "drive_files (snd (upload_test_case (GoogleDriveStorageManager (Some ''root'')) ''judge'' (IntId 7) 9
      (PStr ''1 2'') (PStr ''3'') fresh_storage)) =
        [([''root'', ''judge'', ''test_cases'', ''7''], ''09'', ''1 2''),
         ([''root'', ''judge'', ''test_cases'', ''7''], ''09.a'', ''3'')]"
    by (simp add: p5 k)
  from a' b' c' show ?thesis by simp
qed

(*PROOFS-END*)

end
